theory Spec2Isabelle
  imports Complex_Main
begin

section \<open>Local model inference server: data model\<close>

text \<open>
  The development follows \<^verbatim>\<open>scripts/local_model_server.py\<close>. Pydantic models are
  records, module globals are the fields of a process record, everything the
  script gets from torch, transformers and the interpreter is a parameter.
\<close>

subsection \<open>Precision and device\<close>

datatype dtype = Bfloat16 | Float16 | Float32

datatype device = Cuda | Cpu

text \<open>
  What \<^verbatim>\<open>torch.cuda.is_available()\<close> and \<^verbatim>\<open>torch.cuda.is_bf16_supported()\<close> answer
  on the machine at hand.
\<close>

record hardware_capabilities =
  cuda_is_available :: bool
  cuda_is_bf16_supported :: bool

definition determine_dtype_and_device :: "hardware_capabilities \<Rightarrow> dtype \<times> device" where
  "determine_dtype_and_device caps =
     (if cuda_is_available caps then
        (if cuda_is_bf16_supported caps then (Bfloat16, Cuda)
         else (Float16, Cuda))
      else (Float32, Cpu))"

subsection \<open>Pydantic models\<close>

record message =
  role :: string
  content :: string

text \<open>
  Python's \<^verbatim>\<open>float\<close> is read as a real number: the handler only compares the
  temperature with zero and hands it on.
\<close>

record chat_completion_request =
  req_model :: "string option"
  messages :: "message list"
  stream :: bool
  max_tokens :: "int option"
  temperature :: "real option"

text \<open>
  The request built from a body that carries only the required field
  \<^verbatim>\<open>messages\<close>: every other field takes the default of its class attribute.
\<close>

definition ChatCompletionRequest :: "message list \<Rightarrow> chat_completion_request" where
  "ChatCompletionRequest msgs =
     \<lparr>req_model = None, messages = msgs, stream = False,
      max_tokens = None, temperature = Some 0.7\<rparr>"

record chat_completion_choice =
  index :: int
  choice_message :: message
  finish_reason :: string

record chat_completion_response =
  response_id :: string
  choices :: "chat_completion_choice list"
  usage :: "string \<rightharpoonup> int"

subsection \<open>The model runtime\<close>

type_synonym token = nat

text \<open>
  The tokenizer is called on one prompt string, so the tensors it returns have
  one row; \<open>input_ids\<close> is that row and \<^verbatim>\<open>shape[1]\<close> its length.
\<close>

record encoding =
  input_ids :: "token list"
  attention_mask :: "nat list"

record generate_kwargs =
  kw_inputs :: encoding
  kw_max_new_tokens :: int
  kw_temperature :: real
  kw_do_sample :: bool
  kw_pad_token_id :: "token option"
  kw_eos_token_id :: "token option"

text \<open>
  A call into the runtime either returns or raises; \<open>Inl s\<close> is an exception
  \<open>e\<close> with \<^verbatim>\<open>str(e) = s\<close>. The result of \<^verbatim>\<open>generate\<close> is a tensor given by its
  rows.
\<close>

record tokenizer_handle =
  encode :: "string \<Rightarrow> string + encoding"
  decode :: "token list \<Rightarrow> bool \<Rightarrow> string + string"
  pad_token_id :: "token option"
  eos_token_id :: "token option"

record model_handle =
  generate :: "generate_kwargs \<Rightarrow> string + token list list"

text \<open>
  The module globals \<^verbatim>\<open>model\<close> and \<^verbatim>\<open>tokenizer\<close> (\<open>None\<close> until loaded), and the
  interpreter's \<^verbatim>\<open>hash\<close> on strings, which is fixed for the life of a process.
\<close>

record process =
  model :: "model_handle option"
  tokenizer :: "tokenizer_handle option"
  py_hash :: "string \<Rightarrow> int"

datatype runtime_call =
  Tokenize string
| Generate generate_kwargs
| Decode "token list" bool

datatype http_exception = HTTPException int string

section \<open>Operations\<close>

subsection \<open>Python's \<^verbatim>\<open>str\<close> on integers\<close>

definition digit_char :: "nat \<Rightarrow> char" where
  "digit_char d = char_of (48 + d)"

fun str_nat :: "nat \<Rightarrow> string" where
  "str_nat n =
     (if n < 10 then [digit_char n]
      else str_nat (n div 10) @ [digit_char (n mod 10)])"

declare str_nat.simps [simp del]

definition str_int :: "int \<Rightarrow> string" where
  "str_int i = (if i < 0 then CHR ''-'' # str_nat (nat (- i)) else str_nat (nat i))"

subsection \<open>Prompt construction\<close>

text \<open>
  Lines 126 to 134 of \<^verbatim>\<open>chat_completions\<close>: the loop appends to \<open>prompt\<close>, one
  message at a time; a role that is none of the three leaves it as it is.
\<close>

definition newline :: char where
  "newline = CHR 0x0A"

definition append_message :: "string \<Rightarrow> message \<Rightarrow> string" where
  "append_message prompt msg =
     (if role msg = ''system'' then prompt @ ''System: '' @ content msg @ [newline]
      else if role msg = ''user'' then prompt @ ''User: '' @ content msg @ [newline]
      else if role msg = ''assistant'' then prompt @ ''Assistant: '' @ content msg @ [newline]
      else prompt)"

fun prompt_loop :: "string \<Rightarrow> message list \<Rightarrow> string" where
  "prompt_loop prompt [] = prompt"
| "prompt_loop prompt (msg # msgs) = prompt_loop (append_message prompt msg) msgs"

definition format_prompt :: "message list \<Rightarrow> string" where
  "format_prompt msgs = prompt_loop [] msgs @ ''Assistant:''"

subsection \<open>The chat completion handler\<close>

text \<open>\<^verbatim>\<open>request.max_tokens or 512\<close>: \<open>None\<close> and \<open>0\<close> are falsy.\<close>

definition resolve_max_new_tokens :: "int option \<Rightarrow> int" where
  "resolve_max_new_tokens mt =
     (case mt of None \<Rightarrow> 512 | Some n \<Rightarrow> if n = 0 then 512 else n)"

definition quote :: char where
  "quote = CHR 0x27"

definition none_gt_msg :: string where
  "none_gt_msg =
     [quote, CHR ''>'', quote] @ '' not supported between instances of ''
       @ [quote] @ ''NoneType'' @ [quote] @ '' and '' @ [quote] @ ''int'' @ [quote]"

definition index_error_msg :: string where
  "index_error_msg = ''index 0 is out of bounds for dimension 0 with size 0''"

text \<open>
  The keyword arguments of \<^verbatim>\<open>model.generate\<close> at lines 143 to 150, for a
  temperature that is a number; \<^verbatim>\<open>request.temperature > 0\<close> raises on \<open>None\<close>
  before the call is made.
\<close>

definition generate_call_kwargs :: "tokenizer_handle \<Rightarrow> encoding \<Rightarrow> int \<Rightarrow> real \<Rightarrow>
    generate_kwargs" where
  "generate_call_kwargs tk inputs max_new_tokens t =
     \<lparr>kw_inputs = inputs,
      kw_max_new_tokens = max_new_tokens,
      kw_temperature = t,
      kw_do_sample = (0 < t),
      kw_pad_token_id = pad_token_id tk,
      kw_eos_token_id = eos_token_id tk\<rparr>"

text \<open>
  The body of the \<^verbatim>\<open>try\<close> block, with the calls made into the runtime in the
  order they are made. \<open>Inl s\<close> is an exception raised inside the block.
\<close>

definition generation :: "process \<Rightarrow> model_handle \<Rightarrow> tokenizer_handle \<Rightarrow>
    chat_completion_request \<Rightarrow> (string + chat_completion_response) \<times> runtime_call list" where
  "generation p m tk request =
     (let prompt = format_prompt (messages request) in
      case encode tk prompt of
        Inl e \<Rightarrow> (Inl e, [Tokenize prompt])
      | Inr inputs \<Rightarrow>
          let max_new_tokens = resolve_max_new_tokens (max_tokens request) in
          (case temperature request of
             None \<Rightarrow> (Inl none_gt_msg, [Tokenize prompt])
           | Some t \<Rightarrow>
               let kwargs = generate_call_kwargs tk inputs max_new_tokens t in
               (case generate m kwargs of
                  Inl e \<Rightarrow> (Inl e, [Tokenize prompt, Generate kwargs])
                | Inr outputs \<Rightarrow>
                    (case outputs of
                       [] \<Rightarrow> (Inl index_error_msg, [Tokenize prompt, Generate kwargs])
                     | row # _ \<Rightarrow>
                         let new_tokens = drop (length (input_ids inputs)) row;
                             calls = [Tokenize prompt, Generate kwargs, Decode new_tokens True]
                         in
                         (case decode tk new_tokens True of
                            Inl e \<Rightarrow> (Inl e, calls)
                          | Inr generated_text \<Rightarrow>
                              (Inr \<lparr>response_id = ''local-'' @ str_int (py_hash p prompt),
                                    choices =
                                      [\<lparr>index = 0,
                                        choice_message =
                                          \<lparr>role = ''assistant'', content = generated_text\<rparr>,
                                        finish_reason = ''stop''\<rparr>],
                                    usage =
                                      [''prompt_tokens'' \<mapsto> int (length (input_ids inputs)),
                                       ''completion_tokens'' \<mapsto>
                                          int (length row) - int (length (input_ids inputs)),
                                       ''total_tokens'' \<mapsto> int (length row)]\<rparr>,
                               calls))))))"

definition chat_completions :: "process \<Rightarrow> chat_completion_request \<Rightarrow>
    (http_exception + chat_completion_response) \<times> runtime_call list" where
  "chat_completions p request =
     (case (model p, tokenizer p) of
        (Some m, Some tk) \<Rightarrow>
          (case generation p m tk request of
             (Inl e, calls) \<Rightarrow> (Inl (HTTPException 500 e), calls)
           | (Inr response, calls) \<Rightarrow> (Inr response, calls))
      | _ \<Rightarrow> (Inl (HTTPException 503 ''Model not loaded''), []))"

subsection \<open>The calls a request made into the runtime\<close>

definition generate_calls :: "runtime_call list \<Rightarrow> generate_kwargs list" where
  "generate_calls calls =
     concat (map (\<lambda>c. case c of Generate kw \<Rightarrow> [kw] | _ \<Rightarrow> []) calls)"

text \<open>The id of the response to a request, when the request was served.\<close>

definition served_id :: "process \<Rightarrow> chat_completion_request \<Rightarrow> string option" where
  "served_id p request =
     (case fst (chat_completions p request) of
        Inl _ \<Rightarrow> None
      | Inr response \<Rightarrow> Some (response_id response))"

subsection \<open>The transcript format as the specification words it\<close>

definition spec_role_label :: "string \<Rightarrow> string" where
  "spec_role_label r =
     (if r = ''system'' then ''System''
      else if r = ''user'' then ''User''
      else ''Assistant'')"

definition spec_prompt_line :: "message \<Rightarrow> string" where
  "spec_prompt_line msg = spec_role_label (role msg) @ '': '' @ content msg @ [CHR 0x0A]"

subsection \<open>A stub runtime\<close>

text \<open>
  A tokenizer with one token per character, and a model that echoes the prompt
  tokens and adds the two tokens of \<open>Hi\<close>. The stub hash is the length of the
  string.
\<close>

definition stub_tokenizer :: tokenizer_handle where
  "stub_tokenizer =
     \<lparr>encode = (\<lambda>s. Inr \<lparr>input_ids = map of_char s,
                           attention_mask = replicate (length s) 1\<rparr>),
      decode = (\<lambda>ids skip. Inr (map char_of ids)),
      pad_token_id = Some 0,
      eos_token_id = Some 0\<rparr>"

definition stub_model :: model_handle where
  "stub_model = \<lparr>generate = (\<lambda>kw. Inr [input_ids (kw_inputs kw) @ [72, 105]])\<rparr>"

definition stub_messages :: "message list" where
  "stub_messages = [\<lparr>role = ''user'', content = ''U''\<rparr>]"

definition stub_process :: process where
  "stub_process =
     \<lparr>model = Some stub_model, tokenizer = Some stub_tokenizer,
      py_hash = (\<lambda>s. int (length s))\<rparr>"

text \<open>The process before \<^verbatim>\<open>load_model\<close> has run.\<close>

definition unloaded_process :: process where
  "unloaded_process = \<lparr>model = None, tokenizer = None, py_hash = (\<lambda>s. int (length s))\<rparr>"

section \<open>Properties\<close>

subsection \<open>Device and precision selection\<close>

text \<open>
  C1. On each of the four capability values the selector answers with the plan
  of the priority policy: bfloat16 on the accelerator when both flags hold,
  float16 on the accelerator when only the accelerator is there, float32 on the
  host when there is no accelerator, whatever the second flag says.
\<close>

theorem determine_dtype_and_device_table:
  "determine_dtype_and_device \<lparr>cuda_is_available = True, cuda_is_bf16_supported = True\<rparr>
     = (Bfloat16, Cuda)
   \<and> determine_dtype_and_device \<lparr>cuda_is_available = True, cuda_is_bf16_supported = False\<rparr>
     = (Float16, Cuda)
   \<and> determine_dtype_and_device \<lparr>cuda_is_available = False, cuda_is_bf16_supported = True\<rparr>
     = (Float32, Cpu)
   \<and> determine_dtype_and_device \<lparr>cuda_is_available = False, cuda_is_bf16_supported = False\<rparr>
     = (Float32, Cpu)"
  by (simp add: determine_dtype_and_device_def)

subsection \<open>Prompt construction\<close>

lemma prompt_loop_append:
  "prompt_loop prompt msgs = prompt @ concat (map (append_message []) msgs)"
proof (induction msgs arbitrary: prompt)
  case Nil
  show ?case by simp
next
  case (Cons msg msgs)
  have "append_message prompt msg = prompt @ append_message [] msg"
    by (simp add: append_message_def)
  with Cons show ?case by simp
qed

lemma append_message_known:
  "role msg \<in> {''system'', ''user'', ''assistant''} \<Longrightarrow>
     append_message [] msg = spec_prompt_line msg"
  by (auto simp: append_message_def spec_prompt_line_def spec_role_label_def newline_def)

lemma append_message_other:
  "role msg \<notin> {''system'', ''user'', ''assistant''} \<Longrightarrow> append_message prompt msg = prompt"
  by (simp add: append_message_def)

lemma format_prompt_Nil: "format_prompt [] = ''Assistant:''"
  by (simp add: format_prompt_def)

text \<open>
  C2. For messages whose roles are \<open>system\<close>, \<open>user\<close> or \<open>assistant\<close>, the prompt
  is the lines \<open>RoleLabel: content\<close>, each ended by a newline, in the order of
  the messages, followed by \<open>Assistant:\<close> with nothing after it; the prompt is a
  function of the message sequence alone. The system message \<open>S\<close> followed by
  the user message \<open>U\<close> gives \<open>System: S\<close>, \<open>User: U\<close> and the cue.
\<close>

theorem format_prompt_lines:
  "\<forall>msg \<in> set msgs. role msg \<in> {''system'', ''user'', ''assistant''} \<Longrightarrow>
     format_prompt msgs = concat (map spec_prompt_line msgs) @ ''Assistant:''
     \<and> format_prompt [\<lparr>role = ''system'', content = ''S''\<rparr>, \<lparr>role = ''user'', content = ''U''\<rparr>]
         = ''System: S'' @ [CHR 0x0A] @ ''User: U'' @ [CHR 0x0A] @ ''Assistant:''"
proof
  assume known: "\<forall>msg \<in> set msgs. role msg \<in> {''system'', ''user'', ''assistant''}"
  then have lines: "map (append_message []) msgs = map spec_prompt_line msgs"
    by (intro map_cong refl append_message_known) blast
  show "format_prompt msgs = concat (map spec_prompt_line msgs) @ ''Assistant:''"
    by (simp only: format_prompt_def prompt_loop_append lines append_Nil)
next
  show "format_prompt [\<lparr>role = ''system'', content = ''S''\<rparr>, \<lparr>role = ''user'', content = ''U''\<rparr>]
         = ''System: S'' @ [CHR 0x0A] @ ''User: U'' @ [CHR 0x0A] @ ''Assistant:''"
    by (simp add: format_prompt_def append_message_def newline_def)
qed

theorem format_prompt_lines_witness:
  "set (map role [\<lparr>role = ''user'', content = ''hi''\<rparr>, \<lparr>role = ''assistant'', content = ''yes''\<rparr>,
                  \<lparr>role = ''user'', content = ''bye''\<rparr>])
     \<subseteq> {''system'', ''user'', ''assistant''}
   \<and> format_prompt [\<lparr>role = ''user'', content = ''hi''\<rparr>, \<lparr>role = ''assistant'', content = ''yes''\<rparr>,
                    \<lparr>role = ''user'', content = ''bye''\<rparr>]
       = ''User: hi'' @ [CHR 0x0A] @ ''Assistant: yes'' @ [CHR 0x0A] @ ''User: bye'' @ [CHR 0x0A]
           @ ''Assistant:''"
proof -
  have known: "\<forall>msg \<in> set [\<lparr>role = ''user'', content = ''hi''\<rparr>,
      \<lparr>role = ''assistant'', content = ''yes''\<rparr>, \<lparr>role = ''user'', content = ''bye''\<rparr>].
      role msg \<in> {''system'', ''user'', ''assistant''}"
    by simp
  show ?thesis
    using format_prompt_lines [OF known]
    by (simp add: spec_prompt_line_def spec_role_label_def)
qed

subsection \<open>The handler\<close>

lemma chat_completions_loaded:
  "model p = Some m \<Longrightarrow> tokenizer p = Some tk \<Longrightarrow>
     chat_completions p request =
       (case generation p m tk request of
          (Inl e, calls) \<Rightarrow> (Inl (HTTPException 500 e), calls)
        | (Inr response, calls) \<Rightarrow> (Inr response, calls))"
  by (simp add: chat_completions_def)

lemma chat_completions_calls:
  "model p = Some m \<Longrightarrow> tokenizer p = Some tk \<Longrightarrow>
     snd (chat_completions p request) = snd (generation p m tk request)"
  by (simp add: chat_completions_loaded split: prod.splits sum.splits)

lemma generation_generate_calls:
  "encode tk (format_prompt (messages request)) = Inr inputs \<Longrightarrow>
   temperature request = Some t \<Longrightarrow>
     generate_calls (snd (generation p m tk request)) =
       [generate_call_kwargs tk inputs (resolve_max_new_tokens (max_tokens request)) t]"
  by (simp add: generation_def generate_calls_def Let_def split: sum.splits list.splits)

lemma generation_generate_calls_sound:
  "kw \<in> set (generate_calls (snd (generation p m tk request))) \<Longrightarrow>
     temperature request = Some (kw_temperature kw)
     \<and> kw_do_sample kw = (0 < kw_temperature kw)
     \<and> kw_max_new_tokens kw = resolve_max_new_tokens (max_tokens request)"
  by (auto simp: generation_def generate_calls_def generate_call_kwargs_def Let_def
      split: sum.splits list.splits option.splits)

lemma generation_success:
  assumes "encode tk (format_prompt (messages request)) = Inr inputs"
    and "temperature request = Some t"
    and "generate m (generate_call_kwargs tk inputs
           (resolve_max_new_tokens (max_tokens request)) t) = Inr (row # rest)"
    and "decode tk (drop (length (input_ids inputs)) row) True = Inr text"
  shows "generation p m tk request =
     (Inr \<lparr>response_id = ''local-'' @ str_int (py_hash p (format_prompt (messages request))),
           choices = [\<lparr>index = 0,
                       choice_message = \<lparr>role = ''assistant'', content = text\<rparr>,
                       finish_reason = ''stop''\<rparr>],
           usage = [''prompt_tokens'' \<mapsto> int (length (input_ids inputs)),
                    ''completion_tokens'' \<mapsto> int (length row) - int (length (input_ids inputs)),
                    ''total_tokens'' \<mapsto> int (length row)]\<rparr>,
      [Tokenize (format_prompt (messages request)),
       Generate (generate_call_kwargs tk inputs (resolve_max_new_tokens (max_tokens request)) t),
       Decode (drop (length (input_ids inputs)) row) True])"
  using assms by (simp add: generation_def Let_def)

lemma generation_Inr:
  assumes "generation p m tk request = (Inr response, calls)"
  shows "\<exists>inputs t row rest text.
     encode tk (format_prompt (messages request)) = Inr inputs
     \<and> temperature request = Some t
     \<and> generate m (generate_call_kwargs tk inputs
           (resolve_max_new_tokens (max_tokens request)) t) = Inr (row # rest)
     \<and> decode tk (drop (length (input_ids inputs)) row) True = Inr text"
  using assms
  by (auto simp: generation_def Let_def split: sum.splits option.splits list.splits)

lemma stub_loaded:
  "model stub_process = Some stub_model" "tokenizer stub_process = Some stub_tokenizer"
  by (simp_all add: stub_process_def)

lemma stub_encode:
  "encode stub_tokenizer s = Inr \<lparr>input_ids = map of_char s, attention_mask = replicate (length s) 1\<rparr>"
  by (simp add: stub_tokenizer_def)

lemma stub_generate:
  "generate stub_model kw = Inr [input_ids (kw_inputs kw) @ [72, 105]]"
  by (simp add: stub_model_def)

lemma stub_decode_Hi: "decode stub_tokenizer [72, 105] True = Inr ''Hi''"
  by code_simp

lemma stub_prompt: "format_prompt stub_messages = ''User: U'' @ [CHR 0x0A] @ ''Assistant:''"
  by (simp add: format_prompt_def stub_messages_def append_message_def newline_def)

text \<open>
  C3. When the tokenizer gives \<open>N\<close> prompt tokens and \<^verbatim>\<open>generate\<close> returns a first
  row made of these \<open>N\<close> tokens followed by \<open>K\<close> new ones, the handler decodes
  exactly the \<open>K\<close> new tokens, the content of the one choice is their decoding,
  and the usage has \<open>prompt_tokens = N\<close> and \<open>completion_tokens = K\<close>.
\<close>

theorem completion_excludes_prompt:
  assumes "model p = Some m" and "tokenizer p = Some tk"
    and "encode tk (format_prompt (messages request)) = Inr inputs"
    and "temperature request = Some t"
    and "generate m (generate_call_kwargs tk inputs
           (resolve_max_new_tokens (max_tokens request)) t)
         = Inr ((input_ids inputs @ new_tokens) # rest)"
    and "decode tk new_tokens True = Inr text"
  shows "\<exists>response kw.
     chat_completions p request =
       (Inr response,
        [Tokenize (format_prompt (messages request)), Generate kw, Decode new_tokens True])
     \<and> map (\<lambda>c. (role (choice_message c), content (choice_message c))) (choices response)
         = [(''assistant'', text)]
     \<and> usage response ''prompt_tokens'' = Some (int (length (input_ids inputs)))
     \<and> usage response ''completion_tokens'' = Some (int (length new_tokens))"
proof -
  let ?row = "input_ids inputs @ new_tokens"
  have sliced: "drop (length (input_ids inputs)) ?row = new_tokens"
    by simp
  from assms(6) have dec: "decode tk (drop (length (input_ids inputs)) ?row) True = Inr text"
    by (simp only: sliced)
  note gen = generation_success [OF assms(3) assms(4) assms(5) dec, of p]
  show ?thesis
    by (simp add: chat_completions_loaded [OF assms(1) assms(2)] gen)
qed

theorem completion_excludes_prompt_witness:
  "model stub_process = Some stub_model
   \<and> tokenizer stub_process = Some stub_tokenizer
   \<and> encode stub_tokenizer (format_prompt (messages (ChatCompletionRequest stub_messages)))
       = Inr \<lparr>input_ids = map of_char (format_prompt stub_messages),
              attention_mask = replicate (length (format_prompt stub_messages)) 1\<rparr>
   \<and> temperature (ChatCompletionRequest stub_messages) = Some 0.7
   \<and> decode stub_tokenizer [72, 105] True = Inr ''Hi''
   \<and> (\<exists>response kw.
        chat_completions stub_process (ChatCompletionRequest stub_messages) =
          (Inr response,
           [Tokenize (''User: U'' @ [CHR 0x0A] @ ''Assistant:''), Generate kw, Decode [72, 105] True])
        \<and> map (\<lambda>c. (role (choice_message c), content (choice_message c))) (choices response)
            = [(''assistant'', ''Hi'')]
        \<and> usage response ''prompt_tokens'' = Some 18
        \<and> usage response ''completion_tokens'' = Some 2)"
proof -
  let ?request = "ChatCompletionRequest stub_messages"
  let ?inputs = "\<lparr>input_ids = map of_char (format_prompt stub_messages),
                  attention_mask = replicate (length (format_prompt stub_messages)) 1\<rparr>"
  have msgs: "messages ?request = stub_messages"
    by (simp add: ChatCompletionRequest_def)
  have enc: "encode stub_tokenizer (format_prompt (messages ?request)) = Inr ?inputs"
    by (simp only: msgs stub_encode)
  have temp: "temperature ?request = Some 0.7"
    by (simp add: ChatCompletionRequest_def)
  have gen: "generate stub_model (generate_call_kwargs stub_tokenizer ?inputs
        (resolve_max_new_tokens (max_tokens ?request)) 0.7)
      = Inr ((input_ids ?inputs @ [72, 105]) # [])"
    by (simp add: stub_generate generate_call_kwargs_def)
  note inst = completion_excludes_prompt
    [OF stub_loaded(1) stub_loaded(2) enc temp gen stub_decode_Hi]
  have len: "int (length (input_ids ?inputs)) = 18"
    by (simp add: stub_prompt)
  show ?thesis
    using inst enc temp stub_decode_Hi stub_loaded
    by (simp add: msgs len stub_prompt)
qed

lemma stub_request_fields:
  "messages (ChatCompletionRequest msgs) = msgs"
  "temperature (ChatCompletionRequest msgs) = Some 0.7"
  "max_tokens (ChatCompletionRequest msgs) = None"
  "stream (ChatCompletionRequest msgs) = False"
  by (simp_all add: ChatCompletionRequest_def)

lemma stub_generation:
  assumes "temperature request = Some t"
  shows "generation stub_process stub_model stub_tokenizer request =
     (Inr \<lparr>response_id = ''local-'' @ str_int (int (length (format_prompt (messages request)))),
           choices = [\<lparr>index = 0,
                       choice_message = \<lparr>role = ''assistant'', content = ''Hi''\<rparr>,
                       finish_reason = ''stop''\<rparr>],
           usage = [''prompt_tokens'' \<mapsto> int (length (format_prompt (messages request))),
                    ''completion_tokens'' \<mapsto> 2,
                    ''total_tokens'' \<mapsto> int (length (format_prompt (messages request))) + 2]\<rparr>,
      [Tokenize (format_prompt (messages request)),
       Generate (generate_call_kwargs stub_tokenizer
         \<lparr>input_ids = map of_char (format_prompt (messages request)),
          attention_mask = replicate (length (format_prompt (messages request))) 1\<rparr>
         (resolve_max_new_tokens (max_tokens request)) t),
       Decode [72, 105] True])"
proof -
  let ?prompt = "format_prompt (messages request)"
  let ?inputs = "\<lparr>input_ids = map of_char ?prompt, attention_mask = replicate (length ?prompt) 1\<rparr>"
  have gen: "generate stub_model (generate_call_kwargs stub_tokenizer ?inputs
        (resolve_max_new_tokens (max_tokens request)) t)
      = Inr ((input_ids ?inputs @ [72, 105]) # [])"
    by (simp add: stub_generate generate_call_kwargs_def)
  have dec: "decode stub_tokenizer
      (drop (length (input_ids ?inputs)) (input_ids ?inputs @ [72, 105])) True = Inr ''Hi''"
    by (simp add: stub_decode_Hi)
  show ?thesis
    using generation_success [OF stub_encode assms gen dec, of stub_process]
    by (simp add: stub_process_def add.commute)
qed

lemma stub_chat_completions:
  assumes "temperature request = Some t"
  shows "chat_completions stub_process request =
     (Inr \<lparr>response_id = ''local-'' @ str_int (int (length (format_prompt (messages request)))),
           choices = [\<lparr>index = 0,
                       choice_message = \<lparr>role = ''assistant'', content = ''Hi''\<rparr>,
                       finish_reason = ''stop''\<rparr>],
           usage = [''prompt_tokens'' \<mapsto> int (length (format_prompt (messages request))),
                    ''completion_tokens'' \<mapsto> 2,
                    ''total_tokens'' \<mapsto> int (length (format_prompt (messages request))) + 2]\<rparr>,
      [Tokenize (format_prompt (messages request)),
       Generate (generate_call_kwargs stub_tokenizer
         \<lparr>input_ids = map of_char (format_prompt (messages request)),
          attention_mask = replicate (length (format_prompt (messages request))) 1\<rparr>
         (resolve_max_new_tokens (max_tokens request)) t),
       Decode [72, 105] True])"
  by (simp add: chat_completions_loaded [OF stub_loaded] stub_generation [OF assms])

lemma str_int_18: "str_int 18 = ''18''"
  by code_simp

lemma str_int_10: "str_int 10 = ''10''"
  by code_simp

text \<open>
  C4. In every response the handler returns, \<open>total_tokens\<close> is the sum of
  \<open>prompt_tokens\<close> and \<open>completion_tokens\<close>.
\<close>

theorem usage_total_is_sum:
  assumes "chat_completions p request = (Inr response, calls)"
  shows "\<exists>pt ct. usage response ''prompt_tokens'' = Some pt
           \<and> usage response ''completion_tokens'' = Some ct
           \<and> usage response ''total_tokens'' = Some (pt + ct)"
proof -
  from assms obtain m tk where loaded: "model p = Some m" "tokenizer p = Some tk"
    by (auto simp: chat_completions_def split: option.splits)
  from assms have gen: "generation p m tk request = (Inr response, calls)"
    by (auto simp: chat_completions_loaded [OF loaded] split: prod.splits sum.splits)
  from generation_Inr [OF gen] obtain inputs t row rest generated_text where
    ok: "encode tk (format_prompt (messages request)) = Inr inputs"
      "temperature request = Some t"
      "generate m (generate_call_kwargs tk inputs
           (resolve_max_new_tokens (max_tokens request)) t) = Inr (row # rest)"
      "decode tk (drop (length (input_ids inputs)) row) True = Inr generated_text"
    by blast
  from generation_success [OF ok, of p] gen
  have "usage response = [''prompt_tokens'' \<mapsto> int (length (input_ids inputs)),
      ''completion_tokens'' \<mapsto> int (length row) - int (length (input_ids inputs)),
      ''total_tokens'' \<mapsto> int (length row)]"
    by auto
  then show ?thesis by simp
qed

theorem usage_total_is_sum_witness:
  "fst (chat_completions stub_process (ChatCompletionRequest stub_messages))
     = Inr (projr (fst (chat_completions stub_process (ChatCompletionRequest stub_messages))))
   \<and> usage (projr (fst (chat_completions stub_process (ChatCompletionRequest stub_messages))))
        ''prompt_tokens'' = Some 18
   \<and> usage (projr (fst (chat_completions stub_process (ChatCompletionRequest stub_messages))))
        ''completion_tokens'' = Some 2
   \<and> usage (projr (fst (chat_completions stub_process (ChatCompletionRequest stub_messages))))
        ''total_tokens'' = Some (18 + 2)"
proof -
  let ?result = "chat_completions stub_process (ChatCompletionRequest stub_messages)"
  have served: "?result = (Inr (projr (fst ?result)), snd ?result)"
    by (simp add: stub_chat_completions [OF stub_request_fields(2)])
  have len: "length (format_prompt stub_messages) = 18"
    by (simp add: stub_prompt)
  show ?thesis
    using usage_total_is_sum [OF served]
    by (simp add: stub_chat_completions [OF stub_request_fields(2)] stub_request_fields len)
qed

text \<open>
  C5. While \<^verbatim>\<open>model\<close> or \<^verbatim>\<open>tokenizer\<close> is \<open>None\<close>, every request is answered by the
  HTTP exception with status 503 and detail \<open>Model not loaded\<close>, and no call is
  made into the runtime: no tokenize, no generate, no decode.
\<close>

theorem unloaded_is_503:
  "model p = None \<or> tokenizer p = None \<Longrightarrow>
     chat_completions p request = (Inl (HTTPException 503 ''Model not loaded''), [])"
  by (auto simp: chat_completions_def split: option.splits)

theorem unloaded_is_503_witness:
  "(model unloaded_process = None \<or> tokenizer unloaded_process = None)
   \<and> chat_completions unloaded_process (ChatCompletionRequest stub_messages)
       = (Inl (HTTPException 503 ''Model not loaded''), [])"
proof -
  have unloaded: "model unloaded_process = None \<or> tokenizer unloaded_process = None"
    by (simp add: unloaded_process_def)
  show ?thesis
    using unloaded unloaded_is_503 [OF unloaded, of "ChatCompletionRequest stub_messages"]
    by simp
qed

lemma chat_completions_generate_calls_sound:
  assumes "kw \<in> set (generate_calls (snd (chat_completions p request)))"
  shows "temperature request = Some (kw_temperature kw)
     \<and> kw_do_sample kw = (0 < kw_temperature kw)
     \<and> kw_max_new_tokens kw = resolve_max_new_tokens (max_tokens request)"
proof (cases "model p")
  case None
  with assms show ?thesis
    by (simp add: chat_completions_def generate_calls_def)
next
  case (Some m)
  note m = this
  show ?thesis
  proof (cases "tokenizer p")
    case None
    with assms m show ?thesis
      by (simp add: chat_completions_def generate_calls_def)
  next
    case (Some tk)
    from assms have "kw \<in> set (generate_calls (snd (generation p m tk request)))"
      by (simp only: chat_completions_calls [OF m Some])
    then show ?thesis
      by (rule generation_generate_calls_sound)
  qed
qed

text \<open>
  C6. Every \<^verbatim>\<open>generate\<close> call of a request carries the request's temperature and
  \<open>do_sample\<close> equal to \<open>temperature > 0\<close>; with a model loaded, a tokenizer that
  returns and a temperature \<open>t\<close>, there is exactly one such call, with temperature
  \<open>t\<close> and \<open>do_sample = (t > 0)\<close>. A request that omits the temperature has 0.7.
\<close>

theorem do_sample_iff_positive_temperature:
  "(\<forall>kw \<in> set (generate_calls (snd (chat_completions p request))).
      temperature request = Some (kw_temperature kw)
      \<and> kw_do_sample kw = (0 < kw_temperature kw))
   \<and> (model p = Some m \<longrightarrow> tokenizer p = Some tk \<longrightarrow>
        encode tk (format_prompt (messages request)) = Inr inputs \<longrightarrow>
        temperature request = Some t \<longrightarrow>
          map (\<lambda>kw. (kw_temperature kw, kw_do_sample kw))
            (generate_calls (snd (chat_completions p request))) = [(t, 0 < t)])
   \<and> temperature (ChatCompletionRequest msgs) = Some 0.7"
proof (intro conjI ballI impI)
  fix kw
  assume "kw \<in> set (generate_calls (snd (chat_completions p request)))"
  from chat_completions_generate_calls_sound [OF this]
  show "temperature request = Some (kw_temperature kw)"
    and "kw_do_sample kw = (0 < kw_temperature kw)"
    by simp_all
next
  assume "model p = Some m" "tokenizer p = Some tk"
    "encode tk (format_prompt (messages request)) = Inr inputs"
    "temperature request = Some t"
  then show "map (\<lambda>kw. (kw_temperature kw, kw_do_sample kw))
            (generate_calls (snd (chat_completions p request))) = [(t, 0 < t)]"
    by (simp add: chat_completions_calls generation_generate_calls generate_call_kwargs_def)
next
  show "temperature (ChatCompletionRequest msgs) = Some 0.7"
    by (simp add: ChatCompletionRequest_def)
qed

theorem do_sample_iff_positive_temperature_witness:
  "model stub_process = Some stub_model
   \<and> tokenizer stub_process = Some stub_tokenizer
   \<and> map (\<lambda>kw. (kw_temperature kw, kw_do_sample kw))
        (generate_calls (snd (chat_completions stub_process
           ((ChatCompletionRequest stub_messages)\<lparr>temperature := Some 0\<rparr>)))) = [(0, False)]
   \<and> map (\<lambda>kw. (kw_temperature kw, kw_do_sample kw))
        (generate_calls (snd (chat_completions stub_process
           ((ChatCompletionRequest stub_messages)\<lparr>temperature := Some 0.8\<rparr>)))) = [(0.8, True)]
   \<and> map (\<lambda>kw. (kw_temperature kw, kw_do_sample kw))
        (generate_calls (snd (chat_completions stub_process
           (ChatCompletionRequest stub_messages)))) = [(0.7, True)]"
proof -
  let ?R = "ChatCompletionRequest stub_messages"
  have t0: "temperature (?R\<lparr>temperature := Some 0\<rparr>) = Some 0"
    and t8: "temperature (?R\<lparr>temperature := Some 0.8\<rparr>) = Some 0.8"
    by simp_all
  let ?I = "\<lparr>input_ids = map of_char (format_prompt stub_messages),
             attention_mask = replicate (length (format_prompt stub_messages)) 1\<rparr>"
  note a = do_sample_iff_positive_temperature
    [of stub_process "?R\<lparr>temperature := Some 0\<rparr>" stub_model stub_tokenizer ?I "0"]
  note b = do_sample_iff_positive_temperature
    [of stub_process "?R\<lparr>temperature := Some 0.8\<rparr>" stub_model stub_tokenizer ?I "0.8"]
  note c = do_sample_iff_positive_temperature
    [of stub_process ?R stub_model stub_tokenizer ?I "0.7" stub_messages]
  show ?thesis
    using a b c stub_loaded
    by (simp add: stub_encode stub_request_fields)
qed

lemma generation_first_call:
  "\<exists>rest. snd (generation p m tk request) = Tokenize (format_prompt (messages request)) # rest"
  by (simp add: generation_def Let_def split: sum.splits option.splits list.splits)

lemma stub_served_id:
  "temperature request = Some t \<Longrightarrow>
     served_id stub_process request
       = Some (''local-'' @ str_int (int (length (format_prompt (messages request)))))"
  by (simp add: served_id_def stub_chat_completions)

lemma stub_calls:
  "temperature request = Some t \<Longrightarrow>
     snd (chat_completions stub_process request) =
       [Tokenize (format_prompt (messages request)),
        Generate (generate_call_kwargs stub_tokenizer
          \<lparr>input_ids = map of_char (format_prompt (messages request)),
           attention_mask = replicate (length (format_prompt (messages request))) 1\<rparr>
          (resolve_max_new_tokens (max_tokens request)) t),
        Decode [72, 105] True]"
  by (simp add: stub_chat_completions)

text \<open>
  C7 as stated does not hold. A request with no messages is served by the stub
  process: the tokenizer is called on the bare cue, \<^verbatim>\<open>generate\<close> and \<^verbatim>\<open>decode\<close> follow,
  and a response with an id comes back.
\<close>

theorem empty_messages_not_rejected:
  "messages (ChatCompletionRequest []) = []
   \<and> served_id stub_process (ChatCompletionRequest []) = Some ''local-10''
   \<and> snd (chat_completions stub_process (ChatCompletionRequest [])) =
       [Tokenize ''Assistant:'',
        Generate (generate_call_kwargs stub_tokenizer
          \<lparr>input_ids = map of_char ''Assistant:'', attention_mask = replicate (length ''Assistant:'') 1\<rparr> 512 0.7),
        Decode [72, 105] True]"
  by (simp add: stub_served_id [OF stub_request_fields(2)] stub_calls [OF stub_request_fields(2)]
      stub_request_fields format_prompt_Nil str_int_10 resolve_max_new_tokens_def)

text \<open>
  C7, amended. The handler does not look at whether \<open>messages\<close> is empty. With a
  model and a tokenizer loaded, a request with no messages has the prompt
  \<open>Assistant:\<close> and the first call into the runtime is the tokenizer on this
  prompt. When moreover the tokenizer returns, the temperature of the request is
  a number and not \<open>None\<close>, \<^verbatim>\<open>generate\<close> returns a tensor with at least one row and
  \<^verbatim>\<open>decode\<close> returns, the request is answered with the decoded completion.
\<close>

theorem empty_messages_served:
  assumes "messages request = []" and "model p = Some m" and "tokenizer p = Some tk"
  shows "(\<exists>rest. snd (chat_completions p request) = Tokenize ''Assistant:'' # rest)
    \<and> (encode tk ''Assistant:'' = Inr inputs \<longrightarrow>
        temperature request = Some t \<longrightarrow>
        generate m (generate_call_kwargs tk inputs
           (resolve_max_new_tokens (max_tokens request)) t) = Inr (row # rows) \<longrightarrow>
        decode tk (drop (length (input_ids inputs)) row) True = Inr generated_text \<longrightarrow>
          (\<exists>response. fst (chat_completions p request) = Inr response
             \<and> map (\<lambda>c. content (choice_message c)) (choices response) = [generated_text]))"
proof (intro conjI impI)
  have prompt: "format_prompt (messages request) = ''Assistant:''"
    by (simp only: assms(1) format_prompt_Nil)
  from generation_first_call [of p m tk request]
  show "\<exists>rest. snd (chat_completions p request) = Tokenize ''Assistant:'' # rest"
    by (simp only: chat_completions_calls [OF assms(2) assms(3)] prompt)
  assume "encode tk ''Assistant:'' = Inr inputs"
  then have enc: "encode tk (format_prompt (messages request)) = Inr inputs"
    by (simp only: prompt)
  assume temp: "temperature request = Some t"
    and gen: "generate m (generate_call_kwargs tk inputs
           (resolve_max_new_tokens (max_tokens request)) t) = Inr (row # rows)"
    and dec: "decode tk (drop (length (input_ids inputs)) row) True = Inr generated_text"
  show "\<exists>response. fst (chat_completions p request) = Inr response
      \<and> map (\<lambda>c. content (choice_message c)) (choices response) = [generated_text]"
    by (simp add: chat_completions_loaded [OF assms(2) assms(3)]
        generation_success [OF enc temp gen dec])
qed

theorem empty_messages_served_witness:
  "messages (ChatCompletionRequest []) = []
   \<and> model stub_process = Some stub_model
   \<and> tokenizer stub_process = Some stub_tokenizer
   \<and> encode stub_tokenizer ''Assistant:''
       = Inr \<lparr>input_ids = map of_char ''Assistant:'', attention_mask = replicate (length ''Assistant:'') 1\<rparr>
   \<and> temperature (ChatCompletionRequest []) = Some 0.7
   \<and> (\<exists>rest. snd (chat_completions stub_process (ChatCompletionRequest []))
         = Tokenize ''Assistant:'' # rest)
   \<and> (\<exists>response. fst (chat_completions stub_process (ChatCompletionRequest [])) = Inr response
         \<and> map (\<lambda>c. content (choice_message c)) (choices response) = [''Hi''])"
proof -
  let ?R = "ChatCompletionRequest []"
  let ?I = "\<lparr>input_ids = map of_char ''Assistant:'', attention_mask = replicate (length ''Assistant:'') 1\<rparr>"
  have enc: "encode stub_tokenizer ''Assistant:'' = Inr ?I"
    by (simp add: stub_encode)
  have gen: "generate stub_model (generate_call_kwargs stub_tokenizer ?I
        (resolve_max_new_tokens (max_tokens ?R)) 0.7)
      = Inr ((input_ids ?I @ [72, 105]) # [])"
    by (simp add: stub_generate generate_call_kwargs_def)
  have dec: "decode stub_tokenizer
      (drop (length (input_ids ?I)) (input_ids ?I @ [72, 105])) True = Inr ''Hi''"
    by (simp add: stub_decode_Hi)
  note inst = empty_messages_served [OF stub_request_fields(1) stub_loaded,
      of ?I "0.7" "input_ids ?I @ [72, 105]" "[]" "''Hi''"]
  show ?thesis
    using inst enc gen dec stub_loaded
    by (simp add: stub_request_fields)
qed

text \<open>
  C8 as stated does not hold. A request with \<open>stream = True\<close> is served by the stub
  process like any other: tokenize, generate and decode are called and a
  response with an id comes back.
\<close>

theorem stream_true_not_rejected:
  "stream ((ChatCompletionRequest stub_messages)\<lparr>stream := True\<rparr>) = True
   \<and> served_id stub_process ((ChatCompletionRequest stub_messages)\<lparr>stream := True\<rparr>)
       = Some ''local-18''
   \<and> snd (chat_completions stub_process ((ChatCompletionRequest stub_messages)\<lparr>stream := True\<rparr>))
       = [Tokenize (''User: U'' @ [CHR 0x0A] @ ''Assistant:''),
          Generate (generate_call_kwargs stub_tokenizer
            \<lparr>input_ids = map of_char (''User: U'' @ [CHR 0x0A] @ ''Assistant:''),
             attention_mask = replicate (length (''User: U'' @ [CHR 0x0A] @ ''Assistant:'')) 1\<rparr>
            512 0.7),
          Decode [72, 105] True]"
proof -
  let ?R = "(ChatCompletionRequest stub_messages)\<lparr>stream := True\<rparr>"
  have temp: "temperature ?R = Some 0.7"
    by (simp add: ChatCompletionRequest_def)
  have msgs: "messages ?R = stub_messages" and mt: "max_tokens ?R = None"
    by (simp_all add: ChatCompletionRequest_def)
  show ?thesis
    by (simp add: stub_served_id [OF temp] stub_calls [OF temp] msgs mt stub_prompt
        str_int_18 resolve_max_new_tokens_def)
qed

lemma generation_stream:
  "generation p m tk (request\<lparr>stream := b\<rparr>) = generation p m tk request"
  by (simp add: generation_def Let_def split: sum.splits option.splits list.splits)

text \<open>
  C8, amended. The handler never reads \<open>stream\<close>: whatever the flag is set to,
  the result and the calls into the runtime are those of the same request with
  the flag left as it was, so a request with \<open>stream = True\<close> is handled exactly
  as with \<open>stream = False\<close>, and answered in one piece.
\<close>

theorem stream_ignored:
  "chat_completions p (request\<lparr>stream := b\<rparr>) = chat_completions p request"
  by (simp add: chat_completions_def generation_stream cong: option.case_cong)

lemma served_id_prompt:
  assumes "served_id p request = Some i"
  shows "i = ''local-'' @ str_int (py_hash p (format_prompt (messages request)))"
proof -
  from assms obtain response where
    served: "fst (chat_completions p request) = Inr response" and i: "i = response_id response"
    by (auto simp: served_id_def split: sum.splits)
  from served obtain m tk where loaded: "model p = Some m" "tokenizer p = Some tk"
    by (auto simp: chat_completions_def split: option.splits)
  from served obtain calls where gen: "generation p m tk request = (Inr response, calls)"
    by (auto simp: chat_completions_loaded [OF loaded] split: prod.splits sum.splits)
  from generation_Inr [OF gen] obtain inputs t row rest generated_text where
    ok: "encode tk (format_prompt (messages request)) = Inr inputs"
      "temperature request = Some t"
      "generate m (generate_call_kwargs tk inputs
           (resolve_max_new_tokens (max_tokens request)) t) = Inr (row # rest)"
      "decode tk (drop (length (input_ids inputs)) row) True = Inr generated_text"
    by blast
  from generation_success [OF ok, of p] gen
  have "response_id response
      = ''local-'' @ str_int (py_hash p (format_prompt (messages request)))"
    by auto
  with i show ?thesis by simp
qed

text \<open>
  C9 as stated does not hold. Two requests served by one process, with the same
  messages and different temperatures, get the same id.
\<close>

theorem repeated_prompt_same_id:
  "served_id stub_process (ChatCompletionRequest stub_messages) = Some ''local-18''
   \<and> served_id stub_process ((ChatCompletionRequest stub_messages)\<lparr>temperature := Some 0\<rparr>)
       = Some ''local-18''
   \<and> messages ((ChatCompletionRequest stub_messages)\<lparr>temperature := Some 0\<rparr>)
       = messages (ChatCompletionRequest stub_messages)"
proof -
  let ?R = "ChatCompletionRequest stub_messages"
  have t0: "temperature (?R\<lparr>temperature := Some 0\<rparr>) = Some 0"
    by simp
  show ?thesis
    by (simp add: stub_served_id [OF stub_request_fields(2)] stub_served_id [OF t0]
        stub_request_fields stub_prompt str_int_18)
qed

text \<open>
  C9, amended. The id of a served request is \<open>local-\<close> followed by the decimal
  form of the interpreter's hash of the prompt, and depends on nothing else: two
  served requests whose messages give the same prompt, under the same hash
  function, get the same id.
\<close>

theorem served_id_from_prompt_alone:
  assumes "served_id p1 request1 = Some i1" and "served_id p2 request2 = Some i2"
    and "py_hash p1 = py_hash p2"
    and "format_prompt (messages request1) = format_prompt (messages request2)"
  shows "i1 = ''local-'' @ str_int (py_hash p1 (format_prompt (messages request1)))
     \<and> i2 = i1"
  using served_id_prompt [OF assms(1)] served_id_prompt [OF assms(2)] assms(3) assms(4)
  by simp

theorem served_id_from_prompt_alone_witness:
  "served_id stub_process (ChatCompletionRequest stub_messages) = Some ''local-18''
   \<and> served_id stub_process ((ChatCompletionRequest stub_messages)\<lparr>max_tokens := Some 7\<rparr>)
       = Some ''local-18''
   \<and> py_hash stub_process = py_hash stub_process
   \<and> format_prompt (messages (ChatCompletionRequest stub_messages))
       = format_prompt (messages ((ChatCompletionRequest stub_messages)\<lparr>max_tokens := Some 7\<rparr>))
   \<and> ''local-18''
       = ''local-'' @ str_int (py_hash stub_process
            (format_prompt (messages (ChatCompletionRequest stub_messages))))"
proof -
  let ?R = "ChatCompletionRequest stub_messages"
  let ?R' = "?R\<lparr>max_tokens := Some 7\<rparr>"
  have t': "temperature ?R' = Some 0.7"
    by (simp add: ChatCompletionRequest_def)
  have id1: "served_id stub_process ?R = Some ''local-18''"
    by (simp add: stub_served_id [OF stub_request_fields(2)] stub_request_fields
        stub_prompt str_int_18)
  have id2: "served_id stub_process ?R' = Some ''local-18''"
    by (simp add: stub_served_id [OF t'] stub_request_fields stub_prompt str_int_18)
  have prompts: "format_prompt (messages ?R) = format_prompt (messages ?R')"
    by simp
  show ?thesis
    using served_id_from_prompt_alone [OF id1 id2 refl prompts] id1 id2
    by simp
qed

lemma generation_max_tokens_zero:
  "max_tokens request = Some 0 \<Longrightarrow>
     generation p m tk (request\<lparr>max_tokens := None\<rparr>) = generation p m tk request"
  by (simp add: generation_def resolve_max_new_tokens_def Let_def
      split: sum.splits option.splits list.splits)

text \<open>
  C10. For a request with \<open>max_tokens = 0\<close> the limit resolves to 512: with a
  model loaded, a tokenizer that returns and a temperature that is a number,
  \<^verbatim>\<open>generate\<close> is called once, with \<open>max_new_tokens = 512\<close>, and the whole result is
  that of the same request with \<open>max_tokens\<close> absent.
\<close>

theorem max_tokens_zero_is_default:
  assumes "max_tokens request = Some 0"
    and "model p = Some m" and "tokenizer p = Some tk"
    and "encode tk (format_prompt (messages request)) = Inr inputs"
    and "temperature request = Some t"
  shows "resolve_max_new_tokens (max_tokens request) = 512
     \<and> generate_calls (snd (chat_completions p request)) = [generate_call_kwargs tk inputs 512 t]
     \<and> chat_completions p request = chat_completions p (request\<lparr>max_tokens := None\<rparr>)"
proof (intro conjI)
  show r: "resolve_max_new_tokens (max_tokens request) = 512"
    by (simp add: assms(1) resolve_max_new_tokens_def)
  from generation_generate_calls [OF assms(4) assms(5), of p m]
  show "generate_calls (snd (chat_completions p request)) = [generate_call_kwargs tk inputs 512 t]"
    by (simp add: chat_completions_calls [OF assms(2) assms(3)] r)
  show "chat_completions p request = chat_completions p (request\<lparr>max_tokens := None\<rparr>)"
    by (simp add: chat_completions_def generation_max_tokens_zero [OF assms(1)]
        cong: option.case_cong)
qed

theorem max_tokens_zero_is_default_witness:
  "max_tokens ((ChatCompletionRequest stub_messages)\<lparr>max_tokens := Some 0\<rparr>) = Some 0
   \<and> model stub_process = Some stub_model
   \<and> tokenizer stub_process = Some stub_tokenizer
   \<and> temperature ((ChatCompletionRequest stub_messages)\<lparr>max_tokens := Some 0\<rparr>) = Some 0.7
   \<and> map kw_max_new_tokens (generate_calls (snd (chat_completions stub_process
        ((ChatCompletionRequest stub_messages)\<lparr>max_tokens := Some 0\<rparr>)))) = [512]
   \<and> chat_completions stub_process ((ChatCompletionRequest stub_messages)\<lparr>max_tokens := Some 0\<rparr>)
       = chat_completions stub_process (ChatCompletionRequest stub_messages)"
proof -
  let ?R = "(ChatCompletionRequest stub_messages)\<lparr>max_tokens := Some 0\<rparr>"
  let ?I = "\<lparr>input_ids = map of_char (format_prompt (messages ?R)),
             attention_mask = replicate (length (format_prompt (messages ?R))) 1\<rparr>"
  have mt: "max_tokens ?R = Some 0"
    by simp
  have temp: "temperature ?R = Some 0.7"
    by (simp add: ChatCompletionRequest_def)
  have same: "?R\<lparr>max_tokens := None\<rparr> = ChatCompletionRequest stub_messages"
    by (simp add: ChatCompletionRequest_def)
  note inst = max_tokens_zero_is_default [OF mt stub_loaded stub_encode temp]
  from inst [THEN conjunct2, THEN conjunct1]
  have calls: "map kw_max_new_tokens (generate_calls (snd (chat_completions
      stub_process ?R))) = [512]"
    by (simp add: generate_call_kwargs_def)
  from inst [THEN conjunct2, THEN conjunct2] have equal: "chat_completions stub_process ?R
      = chat_completions stub_process (ChatCompletionRequest stub_messages)"
    by (simp only: same)
  from mt stub_loaded temp calls equal show ?thesis
    by (intro conjI)
qed

end
